theory Spec2Isabelle
  imports Complex_Main
begin

section \<open>Inflation-adjusted returns of BIST 100 and S\&P 500 (main.py)\<close>

text \<open>
  A shallow embedding of \<^verbatim>\<open>main.py\<close>: the real-return formula, the evaluator
  \<^verbatim>\<open>calculate_returns\<close> and the orchestration \<^verbatim>\<open>main\<close>.

  \<^bold>\<open>Numbers.\<close> The program computes in IEEE 754 double precision. It is embedded
  twice. The functions \<open>calculate_real_return\<close>, \<open>calculate_returns\<close>, \<open>to_usd\<close>,
  \<open>to_tl\<close> and \<open>main\<close> compute in exact arithmetic on \<^typ>\<open>real\<close>: they carry what does
  not depend on rounding, that is which branch runs, what is fetched and printed, which
  exception is raised and how a result is composed of the operations. The functions
  whose names end in \<open>_double\<close> round every operation to double precision: they carry
  what the numbers of the program are. Infinities and NaN are represented in neither:
  where numpy would produce one (a zero divisor, a base of \<^verbatim>\<open>**\<close> that is not
  positive, an overflow) the model has the value HOL gives to the total operation.

  \<^bold>\<open>Dates.\<close> \<^verbatim>\<open>main\<close> parses both dates with the format \<^verbatim>\<open>%Y-%m-%d\<close>, so each
  is a calendar day at midnight. A date is modelled by its day number (the proleptic
  Gregorian ordinal), an \<^typ>\<open>int\<close>; \<^verbatim>\<open>(end_date - start_date).days\<close> is the
  difference of the two day numbers.

  \<^bold>\<open>Data frames.\<close> The frame returned by \<^verbatim>\<open>yf.download\<close> is modelled by its
  \<^verbatim>\<open>Close\<close> column and the one-column frame returned by \<^verbatim>\<open>get_data_fred\<close> by that
  column: a \<^typ>\<open>real list\<close> in row order. \<^verbatim>\<open>len(data)\<close> is the length of the list.
  A provider is a function from the symbol and the two dates to the fetched column, with
  \<open>None\<close> when the call raises.
\<close>

subsection \<open>Exceptions, messages and events\<close>

datatype py_error = ValueError | ZeroDivisionError | TypeError

text \<open>
  One constructor for each \<^verbatim>\<open>print\<close> call of the program. A number printed with the
  format \<^verbatim>\<open>:.2f\<close> is carried unformatted.
\<close>

datatype message =
    Data_download_error                 \<comment> \<open>\<^verbatim>\<open>Data download error: {e}\<close>\<close>
  | Insufficient_data_found string      \<comment> \<open>\<^verbatim>\<open>Insufficient data found: {ticker}\<close>\<close>
  | USDTRY_download_error               \<comment> \<open>\<^verbatim>\<open>USD/TRY data download error: {e}\<close>\<close>
  | Insufficient_USDTRY_data            \<comment> \<open>\<^verbatim>\<open>Insufficient USD/TRY data found\<close>\<close>
  | Unable_to_fetch_rates               \<comment> \<open>\<^verbatim>\<open>Unable to fetch inflation and/or interest rate data\<close>\<close>
  | Calculation_error                   \<comment> \<open>\<^verbatim>\<open>An error occurred during the calculations.\<close>\<close>
  | Initial_investment real             \<comment> \<open>\<^verbatim>\<open>Initial Investment: ... TL\<close>\<close>
  | Initial_rate real                   \<comment> \<open>\<^verbatim>\<open>Initial USD/TRY Rate: ...\<close>\<close>
  | Final_rate real                     \<comment> \<open>\<^verbatim>\<open>Final USD/TRY Rate: ...\<close>\<close>
  | Results_header string               \<comment> \<open>\<^verbatim>\<open>BIST 100 Results:\<close>, \<^verbatim>\<open>S&P 500 Results:\<close>\<close>
  | Total_nominal_return real           \<comment> \<open>\<^verbatim>\<open>Total Nominal Return: %...\<close>\<close>
  | Annual_real_return real             \<comment> \<open>\<^verbatim>\<open>Annual Real Return (Inflation Adjusted): %...\<close>\<close>
  | Final_value real                    \<comment> \<open>\<^verbatim>\<open>Final Value: ... TL\<close>\<close>

datatype event =
    Yf_download string                  \<comment> \<open>a call of \<^verbatim>\<open>yf.download\<close> for a ticker\<close>
  | Fred_fetch string                   \<comment> \<open>a call of \<^verbatim>\<open>pdr.get_data_fred\<close> for a series\<close>
  | Print message
  | Show_chart "real list"              \<comment> \<open>\<^verbatim>\<open>plt.bar\<close> ... \<^verbatim>\<open>plt.show\<close> of the final values\<close>

type_synonym provider = "string \<Rightarrow> int \<Rightarrow> int \<Rightarrow> real list option"

subsection \<open>The real return\<close>

definition calculate_real_return :: "real \<Rightarrow> real \<Rightarrow> real" where
  "calculate_real_return nominal_return inflation_rate =
     (1 + nominal_return) / (1 + inflation_rate) - 1"

subsection \<open>The evaluator\<close>

text \<open>
  \<^verbatim>\<open>x ** y\<close> on floats. For a positive base it is the real power; for a base that is
  zero or negative numpy yields 0, 1, an infinity or NaN, which is outside the model.
\<close>

definition float_pow :: "real \<Rightarrow> real \<Rightarrow> real" where
  "float_pow x y = x powr y"

text \<open>\<^verbatim>\<open>(end_date - start_date).days / 365.25\<close>\<close>

definition years_between :: "int \<Rightarrow> int \<Rightarrow> real" where
  "years_between start_date end_date = real_of_int (end_date - start_date) / 365.25"

type_synonym returns = "real option \<times> real option \<times> real option"

text \<open>
  \<^verbatim>\<open>calculate_returns\<close> gives the events it causes and either the exception it raises
  or the triple it returns. \<^verbatim>\<open>years\<close> is a Python float and \<^verbatim>\<open>1/years\<close> divides a
  Python int by it, which raises \<^verbatim>\<open>ZeroDivisionError\<close> when \<^verbatim>\<open>years\<close> is 0; nothing
  catches it. The test \<^verbatim>\<open>isinstance(real_annual_return, pd.Series)\<close> takes the only
  element of a one-element series, which the model already identifies with the scalar.
\<close>

definition calculate_returns ::
  "provider \<Rightarrow> string \<Rightarrow> real \<Rightarrow> int \<Rightarrow> int \<Rightarrow> real \<Rightarrow> real
     \<Rightarrow> event list \<times> (py_error + returns)" where
  "calculate_returns yf ticker initial_investment start_date end_date inflation_rate interest_rate =
     (case yf ticker start_date end_date of
        None \<Rightarrow> ([Yf_download ticker, Print Data_download_error], Inr (None, None, None))
      | Some data \<Rightarrow>
          if data = [] \<or> length data < 2
          then ([Yf_download ticker, Print (Insufficient_data_found ticker)],
                Inr (None, None, None))
          else
            let initial_price = hd data;
                final_price = last data;
                total_return = (final_price - initial_price) / initial_price;
                years = years_between start_date end_date
            in if years = 0 then ([Yf_download ticker], Inl ZeroDivisionError)
               else
                 let annual_return = float_pow (1 + total_return) (1 / years) - 1;
                     real_annual_return = calculate_real_return annual_return inflation_rate;
                     final_value = initial_investment * float_pow (1 + real_annual_return) years
                 in ([Yf_download ticker],
                     Inr (Some total_return, Some real_annual_return, Some final_value)))"

subsection \<open>Fetching an economic series\<close>

text \<open>
  \<^verbatim>\<open>get_fred_data\<close> catches every exception of the provider, prints the error and
  returns \<^verbatim>\<open>None\<close>.
\<close>

definition get_fred_data :: "provider \<Rightarrow> string \<Rightarrow> int \<Rightarrow> int \<Rightarrow> event list \<times> real list option" where
  "get_fred_data pdr series start end =
     (case pdr series start end of
        None \<Rightarrow> ([Fred_fetch series, Print Data_download_error], None)
      | Some data \<Rightarrow> ([Fred_fetch series], Some data))"

subsection \<open>Aggregating a rate series\<close>

text \<open>
  Modelled from the spec: \<^verbatim>\<open>DataFrame.pct_change\<close> is pandas library code, not part of
  the sources. Section 4.2 of the specification describes it as the period-over-period
  relative change of every consecutive pair; pandas computes it as the ratio of a row to
  the row before, minus 1. Its first row, which has no predecessor, is NaN and
  \<^verbatim>\<open>mean\<close> skips NaN, so the model leaves that row out.
\<close>

fun pct_change :: "real list \<Rightarrow> real list" where
  "pct_change (x # y # xs) = (y / x - 1) # pct_change (y # xs)"
| "pct_change [x] = []"
| "pct_change [] = []"

text \<open>
  Modelled from the spec: \<^verbatim>\<open>DataFrame.mean\<close> is pandas library code, not part of the
  sources; it is the arithmetic mean of the column. On a column with no value pandas
  yields NaN, which is outside the model.
\<close>

definition mean :: "real list \<Rightarrow> real" where
  "mean xs = sum_list xs / real (length xs)"

text \<open>
  Lines 92 and 93 of \<^verbatim>\<open>main\<close>: \<^verbatim>\<open>x.pct_change().mean() * 12\<close>; lines 94 and 95:
  \<^verbatim>\<open>x.mean() / 100\<close>.
\<close>

definition annual_inflation :: "real list \<Rightarrow> real" where
  "annual_inflation series = mean (pct_change series) * 12"

definition average_interest :: "real list \<Rightarrow> real" where
  "average_interest series = mean series / 100"

subsection \<open>Currency conversion\<close>

text \<open>
  Line 79 of \<^verbatim>\<open>main\<close>: \<^verbatim>\<open>initial_investment_tl / initial_usd_rate\<close>; lines 108 and
  109: \<^verbatim>\<open>bist_final_usd * final_usd_rate\<close> and the same for the S\&P 500.
\<close>

definition to_usd :: "real \<Rightarrow> real \<Rightarrow> real" where
  "to_usd amount_tl initial_usd_rate = amount_tl / initial_usd_rate"

definition to_tl :: "real \<Rightarrow> real \<Rightarrow> real" where
  "to_tl amount_usd final_usd_rate = amount_usd * final_usd_rate"

subsection \<open>Double-precision arithmetic\<close>

text \<open>
  A finite double is modelled by the real number it denotes. An operation yields the
  double nearest to the exact result, a tie going to the even mantissa:
  \<open>\<lfloor>log 2 \<bar>x\<bar>\<rfloor>\<close> is the binary exponent of \<open>x\<close>, kept at \<open>-1022\<close> or above (below it the
  doubles are subnormal, all spaced \<open>2 powi (-1074)\<close> apart), and the mantissa has 52 bits
  after the leading one. Overflow is not represented: a result beyond the largest double
  stays finite here.
\<close>

definition round_half_even :: "real \<Rightarrow> int" where
  "round_half_even y =
     (let n = \<lfloor>y\<rfloor>; d = y - of_int n
      in if d < 1/2 then n else if 1/2 < d then n + 1 else if even n then n else n + 1)"

definition double_exponent :: "real \<Rightarrow> int" where
  "double_exponent x = max \<lfloor>log 2 \<bar>x\<bar>\<rfloor> (- 1022)"

definition double_round :: "real \<Rightarrow> real" where
  "double_round x =
     (if x = 0 then 0
      else real_of_int (round_half_even (x / 2 powi (double_exponent x - 52)))
             * 2 powi (double_exponent x - 52))"

text \<open>
  \<open>in_range x\<close>: \<open>x\<close> is 0 or lies between the smallest normal double and the largest
  double. Rounding such an \<open>x\<close> neither overflows nor loses precision to underflow.
\<close>

definition in_range :: "real \<Rightarrow> bool" where
  "in_range x \<longleftrightarrow>
     x = 0 \<or> (2 powi (- 1022) \<le> \<bar>x\<bar> \<and> \<bar>x\<bar> \<le> (2 - 2 powi (- 52)) * 2 powi 1023)"

definition fadd :: "real \<Rightarrow> real \<Rightarrow> real" where
  "fadd x y = double_round (x + y)"

definition fsub :: "real \<Rightarrow> real \<Rightarrow> real" where
  "fsub x y = double_round (x - y)"

definition fmul :: "real \<Rightarrow> real \<Rightarrow> real" where
  "fmul x y = double_round (x * y)"

definition fdiv :: "real \<Rightarrow> real \<Rightarrow> real" where
  "fdiv x y = double_round (x / y)"

text \<open>
  \<^verbatim>\<open>x ** y\<close> in double precision, taken as the correctly rounded power. The C library
  that numpy calls may differ from it in the last place; no theorem depends on its digits.
\<close>

definition double_pow :: "real \<Rightarrow> real \<Rightarrow> real" where
  "double_pow x y = double_round (x powr y)"

text \<open>Line 18 in double precision.\<close>

definition calculate_real_return_double :: "real \<Rightarrow> real \<Rightarrow> real" where
  "calculate_real_return_double nominal_return inflation_rate =
     fsub (fdiv (fadd 1 nominal_return) (fadd 1 inflation_rate)) 1"

text \<open>
  Lines 22 to 51 with every arithmetic operation in double precision. The branches are
  those of \<open>calculate_returns\<close>; \<^verbatim>\<open>years\<close> is the rounded quotient of the number of days
  by 365.25, which is 0 only when the two dates are the same day.
\<close>

definition calculate_returns_double ::
  "provider \<Rightarrow> string \<Rightarrow> real \<Rightarrow> int \<Rightarrow> int \<Rightarrow> real \<Rightarrow> real
     \<Rightarrow> event list \<times> (py_error + returns)" where
  "calculate_returns_double yf ticker initial_investment start_date end_date inflation_rate interest_rate =
     (case yf ticker start_date end_date of
        None \<Rightarrow> ([Yf_download ticker, Print Data_download_error], Inr (None, None, None))
      | Some data \<Rightarrow>
          if data = [] \<or> length data < 2
          then ([Yf_download ticker, Print (Insufficient_data_found ticker)],
                Inr (None, None, None))
          else
            let initial_price = hd data;
                final_price = last data;
                total_return = fdiv (fsub final_price initial_price) initial_price;
                years = fdiv (real_of_int (end_date - start_date)) 365.25
            in if years = 0 then ([Yf_download ticker], Inl ZeroDivisionError)
               else
                 let annual_return = fsub (double_pow (fadd 1 total_return) (fdiv 1 years)) 1;
                     real_annual_return = calculate_real_return_double annual_return inflation_rate;
                     final_value = fmul initial_investment (double_pow (fadd 1 real_annual_return) years)
                 in ([Yf_download ticker],
                     Inr (Some total_return, Some real_annual_return, Some final_value)))"



subsection \<open>The orchestration\<close>

text \<open>
  What the run receives from outside: the three lines typed by the user, already parsed
  (\<open>None\<close> when \<^verbatim>\<open>float\<close> or \<^verbatim>\<open>strptime\<close> raises \<^verbatim>\<open>ValueError\<close>), and the two
  data providers.
\<close>

record world =
  amount_input :: "real option"
  start_input :: "int option"
  end_input :: "int option"
  yf_download :: provider
  get_data_fred :: provider

text \<open>
  Lines 106 to 133 of \<^verbatim>\<open>main\<close>: the report, or the error message. Only the first
  component of each triple is tested; arithmetic on a component that is \<^verbatim>\<open>None\<close>
  raises \<^verbatim>\<open>TypeError\<close>, after the lines printed before it.
\<close>

definition present :: "real \<Rightarrow> real \<Rightarrow> real \<Rightarrow> returns \<Rightarrow> returns \<Rightarrow> event list \<times> py_error option" where
  "present initial_investment_tl initial_usd_rate final_usd_rate bist sp500 =
     (case (bist, sp500) of
        ((bist_return, bist_real_annual, bist_final_usd),
         (sp500_return, sp500_real_annual, sp500_final_usd)) \<Rightarrow>
        (case (bist_return, sp500_return) of
           (Some bist_return, Some sp500_return) \<Rightarrow>
             (case (bist_final_usd, sp500_final_usd) of
                (Some bist_final_usd, Some sp500_final_usd) \<Rightarrow>
                  let bist_final_tl = to_tl bist_final_usd final_usd_rate;
                      sp500_final_tl = to_tl sp500_final_usd final_usd_rate;
                      head = [Print (Initial_investment initial_investment_tl),
                              Print (Initial_rate initial_usd_rate),
                              Print (Final_rate final_usd_rate),
                              Print (Results_header ''BIST 100''),
                              Print (Total_nominal_return (bist_return * 100))]
                  in (case bist_real_annual of
                        None \<Rightarrow> (head, Some TypeError)
                      | Some bist_real_annual \<Rightarrow>
                          let middle = [Print (Annual_real_return (bist_real_annual * 100)),
                                        Print (Final_value bist_final_tl),
                                        Print (Results_header ''S&P 500''),
                                        Print (Total_nominal_return (sp500_return * 100))]
                          in (case sp500_real_annual of
                                None \<Rightarrow> (head @ middle, Some TypeError)
                              | Some sp500_real_annual \<Rightarrow>
                                  (head @ middle @
                                   [Print (Annual_real_return (sp500_real_annual * 100)),
                                    Print (Final_value sp500_final_tl),
                                    Show_chart [bist_final_tl, sp500_final_tl]],
                                   None)))
              | _ \<Rightarrow> ([], Some TypeError))
         | _ \<Rightarrow> ([Print Calculation_error], None)))"

text \<open>
  \<^verbatim>\<open>main\<close> gives the events of the run in order and the exception that ends it, if
  any. An exception raised by \<^verbatim>\<open>calculate_returns\<close> is not caught.
\<close>

definition main :: "world \<Rightarrow> event list \<times> py_error option" where
  "main w =
     (case amount_input w of None \<Rightarrow> ([], Some ValueError) | Some initial_investment_tl \<Rightarrow>
      case start_input w of None \<Rightarrow> ([], Some ValueError) | Some start_date \<Rightarrow>
      case end_input w of None \<Rightarrow> ([], Some ValueError) | Some end_date \<Rightarrow>
      case yf_download w ''USDTRY=X'' start_date end_date of
        None \<Rightarrow> ([Yf_download ''USDTRY=X'', Print USDTRY_download_error], None)
      | Some usdtry \<Rightarrow>
          if usdtry = [] \<or> length usdtry < 2
          then ([Yf_download ''USDTRY=X'', Print Insufficient_USDTRY_data], None)
          else
            let initial_usd_rate = hd usdtry;
                final_usd_rate = last usdtry;
                initial_investment_usd = to_usd initial_investment_tl initial_usd_rate;
                (t1, turkish_inflation) =
                   get_fred_data (get_data_fred w) ''TURCPIALLMINMEI'' start_date end_date;
                (t2, us_inflation) =
                   get_fred_data (get_data_fred w) ''CPIAUCSL'' start_date end_date;
                (t3, turkish_interest_rate) =
                   get_fred_data (get_data_fred w) ''IR3TIB01TRM156N'' start_date end_date;
                (t4, us_interest_rate) =
                   get_fred_data (get_data_fred w) ''FEDFUNDS'' start_date end_date;
                fetched = Yf_download ''USDTRY=X'' # t1 @ t2 @ t3 @ t4
            in (case (turkish_inflation, us_inflation, turkish_interest_rate, us_interest_rate) of
                  (Some turkish_inflation, Some us_inflation,
                   Some turkish_interest_rate, Some us_interest_rate) \<Rightarrow>
                    let turkish_inflation = annual_inflation turkish_inflation;
                        us_inflation = annual_inflation us_inflation;
                        turkish_interest_rate = average_interest turkish_interest_rate;
                        us_interest_rate = average_interest us_interest_rate;
                        (t5, bist) =
                           calculate_returns (yf_download w) ''XU100.IS'' initial_investment_usd
                             start_date end_date turkish_inflation turkish_interest_rate
                    in (case bist of
                          Inl err \<Rightarrow> (fetched @ t5, Some err)
                        | Inr bist \<Rightarrow>
                            let (t6, sp500) =
                                  calculate_returns (yf_download w) ''^GSPC'' initial_investment_usd
                                    start_date end_date us_inflation us_interest_rate
                            in (case sp500 of
                                  Inl err \<Rightarrow> (fetched @ t5 @ t6, Some err)
                                | Inr sp500 \<Rightarrow>
                                    let (t7, raised) =
                                          present initial_investment_tl initial_usd_rate
                                            final_usd_rate bist sp500
                                    in (fetched @ t5 @ t6 @ t7, raised)))
                | _ \<Rightarrow> (fetched @ [Print Unable_to_fetch_rates], None)))"

subsection \<open>Observations on a run\<close>

text \<open>The events that present results: the lines of the report and the chart.\<close>

definition result_message :: "message \<Rightarrow> bool" where
  "result_message m =
     (case m of
        Initial_investment _ \<Rightarrow> True | Initial_rate _ \<Rightarrow> True | Final_rate _ \<Rightarrow> True
      | Results_header _ \<Rightarrow> True | Total_nominal_return _ \<Rightarrow> True
      | Annual_real_return _ \<Rightarrow> True | Final_value _ \<Rightarrow> True
      | _ \<Rightarrow> False)"

fun is_result :: "event \<Rightarrow> bool" where
  "is_result (Print m) = result_message m"
| "is_result (Show_chart _) = True"
| "is_result (Yf_download _) = False"
| "is_result (Fred_fetch _) = False"

definition presents_results :: "event list \<Rightarrow> bool" where
  "presents_results trace = list_ex is_result trace"

fun is_fred_fetch :: "event \<Rightarrow> bool" where
  "is_fred_fetch (Fred_fetch _) = True"
| "is_fred_fetch _ = False"

subsection \<open>The events of the four economic fetches\<close>

text \<open>Lines 82 to 85 of \<^verbatim>\<open>main\<close>, as a trace: used to state what a run has done.\<close>

definition economic_fetches :: "world \<Rightarrow> int \<Rightarrow> int \<Rightarrow> event list" where
  "economic_fetches w s e =
     fst (get_fred_data (get_data_fred w) ''TURCPIALLMINMEI'' s e)
     @ fst (get_fred_data (get_data_fred w) ''CPIAUCSL'' s e)
     @ fst (get_fred_data (get_data_fred w) ''IR3TIB01TRM156N'' s e)
     @ fst (get_fred_data (get_data_fred w) ''FEDFUNDS'' s e)"

subsection \<open>Example runs\<close>

text \<open>
  Four worlds, all with an investment of 1000 TRY, consumer price indices that stay at 100
  and interest rates of 5 percent; the first three run from 2021-01-01 to 2022-01-01 (day
  numbers 737791 and 738156). In the first every download raises. In the second the
  exchange rate goes from 8 to 13 and both indices from 100 to 150. The third is the second
  with a single point for the S\&P 500. The fourth is the second with 2021-01-01 as both
  start and end date.
\<close>

definition fred_example :: provider where
  "fred_example = (\<lambda>series _ _. if series = ''TURCPIALLMINMEI'' \<or> series = ''CPIAUCSL''
                                  then Some [100, 100, 100] else Some [5, 5])"

definition world_fails :: world where
  "world_fails = \<lparr>amount_input = Some 1000, start_input = Some 737791, end_input = Some 738156,
                   yf_download = (\<lambda>_ _ _. None),
                   get_data_fred = fred_example\<rparr>"

definition world_ok :: world where
  "world_ok = \<lparr>amount_input = Some 1000, start_input = Some 737791, end_input = Some 738156,
                yf_download = (\<lambda>ticker _ _. if ticker = ''USDTRY=X'' then Some [8, 13]
                                              else Some [100, 150]),
                get_data_fred = fred_example\<rparr>"

definition world_short :: world where
  "world_short = \<lparr>amount_input = Some 1000, start_input = Some 737791, end_input = Some 738156,
                   yf_download = (\<lambda>ticker _ _. if ticker = ''USDTRY=X'' then Some [8, 13]
                                                 else if ticker = ''^GSPC'' then Some [100]
                                                 else Some [100, 150]),
                   get_data_fred = fred_example\<rparr>"

definition world_same_day :: world where
  "world_same_day = \<lparr>amount_input = Some 1000, start_input = Some 737791, end_input = Some 737791,
                      yf_download = (\<lambda>ticker _ _. if ticker = ''USDTRY=X'' then Some [8, 13]
                                                    else Some [100, 150]),
                      get_data_fred = fred_example\<rparr>"

section \<open>Properties\<close>

subsection \<open>Claim about the real return\<close>

text \<open>
  C3: the real return is \<open>(1 + nominal) / (1 + inflation) - 1\<close>; it is 0 for no growth and
  no inflation, and 0 whenever the nominal return equals an inflation rate above \<open>-1\<close>.
\<close>

theorem real_return_formula:
  "calculate_real_return n i = (1 + n) / (1 + i) - 1
   \<and> calculate_real_return 0 0 = 0
   \<and> (\<forall>r. - 1 < r \<longrightarrow> calculate_real_return r r = 0)"
  by (simp add: calculate_real_return_def)

theorem real_return_formula_witness:
  "- 1 < (1/2 :: real) \<and> calculate_real_return (1/2) (1/2) = 0
   \<and> calculate_real_return 3 1 = 1"
  using real_return_formula [of 3 1] by simp

subsection \<open>Facts about the evaluator\<close>

lemma calculate_returns_short:
  "yf ticker s e = None \<or> (\<exists>d. yf ticker s e = Some d \<and> length d < 2) \<Longrightarrow>
   snd (calculate_returns yf ticker amt s e infl ir) = Inr (None, None, None)"
  by (auto simp: calculate_returns_def)

lemma calculate_returns_value:
  assumes "yf ticker s e = Some data" "2 \<le> length data" "s \<noteq> e"
  shows "calculate_returns yf ticker amt s e infl ir =
    ([Yf_download ticker],
     Inr (Some ((last data - hd data) / hd data),
          Some (calculate_real_return
                  (float_pow (1 + (last data - hd data) / hd data) (1 / years_between s e) - 1) infl),
          Some (amt * float_pow (1 + calculate_real_return
                  (float_pow (1 + (last data - hd data) / hd data) (1 / years_between s e) - 1) infl)
                  (years_between s e))))"
  using assms by (auto simp: calculate_returns_def Let_def years_between_def)

lemma calculate_returns_raise:
  assumes "yf ticker s e = Some data" "2 \<le> length data" "s = e"
  shows "calculate_returns yf ticker amt s e infl ir = ([Yf_download ticker], Inl ZeroDivisionError)"
  using assms by (auto simp: calculate_returns_def Let_def years_between_def)

lemma hd_pos: "2 \<le> length data \<Longrightarrow> \<forall>p\<in>set data. 0 < p \<Longrightarrow> (0::real) < hd data"
  by (cases data) auto

lemma scenario_final_value:
  assumes "y \<noteq> 0"
  shows "float_pow (1 + calculate_real_return (float_pow (1 + 1/2) (1 / y) - 1) 0) y = 3/2"
  using assms by (simp add: float_pow_def calculate_real_return_def powr_powr)

lemma calculate_returns_scenario:
  assumes "yf ticker s e = Some [100, 150]" "s \<noteq> e"
  shows "calculate_returns yf ticker amt s e 0 ir =
           ([Yf_download ticker],
            Inr (Some (1/2), Some ((3/2) powr (1 / years_between s e) - 1), Some (amt * (3/2))))"
proof -
  have "years_between s e \<noteq> 0" using assms(2) by (simp add: years_between_def)
  from scenario_final_value [OF this] show ?thesis
    by (simp add: calculate_returns_value [of yf ticker s e "[100, 150]", OF assms(1) _ assms(2)])
       (simp add: calculate_real_return_def float_pow_def)
qed


subsection \<open>Facts about double-precision arithmetic\<close>

lemma round_half_even_near: "\<bar>real_of_int (round_half_even y) - y\<bar> \<le> 1/2"
  unfolding round_half_even_def Let_def by (auto simp: abs_le_iff)

lemma round_half_even_eq:
  assumes "\<bar>y - real_of_int m\<bar> < 1/2"
  shows "round_half_even y = m"
proof -
  have "\<bar>real_of_int (round_half_even y) - real_of_int m\<bar> < 1"
    using round_half_even_near [of y] assms by linarith
  then have "\<bar>real_of_int (round_half_even y - m)\<bar> < 1" by simp
  then have "\<bar>round_half_even y - m\<bar> < 1" by linarith
  then show ?thesis by linarith
qed

lemma double_exponent_eq:
  assumes "2 powi e \<le> \<bar>x\<bar>" "\<bar>x\<bar> < 2 powi (e + 1)" "- 1022 \<le> e"
  shows "double_exponent x = e"
proof -
  have pos: "0 < \<bar>x\<bar>" using assms(1) by (smt (verit) zero_less_power_int)
  have "(2::real) powr real_of_int e = 2 powi e" "(2::real) powr real_of_int (e + 1) = 2 powi (e + 1)"
    by (simp_all only: powr_real_of_int' [of 2, simplified])
  then have "\<lfloor>log 2 \<bar>x\<bar>\<rfloor> = e"
    using assms(1,2) pos by (subst floor_log_eq_powr_iff) simp_all
  with assms(3) show ?thesis by (simp add: double_exponent_def)
qed

lemma double_round_eq:
  assumes "2 powi e \<le> \<bar>x\<bar>" "\<bar>x\<bar> < 2 powi (e + 1)" "- 1022 \<le> e"
    and "\<bar>x / 2 powi (e - 52) - real_of_int m\<bar> < 1/2"
  shows "double_round x = real_of_int m * 2 powi (e - 52)"
proof -
  have "x \<noteq> 0" using assms(1) by (smt (verit) zero_less_power_int)
  then show ?thesis
    by (simp add: double_round_def double_exponent_eq [OF assms(1-3)] round_half_even_eq [OF assms(4)])
qed

lemma double_round_exact:
  assumes "2 powi e \<le> \<bar>x\<bar>" "\<bar>x\<bar> < 2 powi (e + 1)" "- 1022 \<le> e"
    and "x / 2 powi (e - 52) = real_of_int m"
  shows "double_round x = x"
proof -
  have "double_round x = real_of_int m * 2 powi (e - 52)"
    using assms by (intro double_round_eq) simp_all
  also have "\<dots> = x" using assms(4) by (simp add: field_simps)
  finally show ?thesis .
qed

lemma floor_log_ge:
  assumes "2 powi k \<le> \<bar>x\<bar>"
  shows "k \<le> \<lfloor>log 2 \<bar>x\<bar>\<rfloor>"
proof -
  have pos: "0 < \<bar>x\<bar>" using assms by (smt (verit) zero_less_power_int)
  have "(2::real) powr real_of_int k = 2 powi k"
    by (simp only: powr_real_of_int' [of 2, simplified])
  with assms have "2 powr real_of_int k \<le> \<bar>x\<bar>" by simp
  then have "real_of_int k \<le> log 2 \<bar>x\<bar>"
    using pos by (simp add: le_log_iff)
  then show ?thesis by (simp add: le_floor_iff)
qed

lemma floor_log_bounds:
  assumes "x \<noteq> 0"
  shows "2 powi \<lfloor>log 2 \<bar>x\<bar>\<rfloor> \<le> \<bar>x\<bar>"
proof -
  have pos: "0 < \<bar>x\<bar>" using assms by simp
  have "(2::real) powr real_of_int \<lfloor>log 2 \<bar>x\<bar>\<rfloor> = 2 powi \<lfloor>log 2 \<bar>x\<bar>\<rfloor>"
    by (simp only: powr_real_of_int' [of 2, simplified])
  moreover have "2 powr real_of_int \<lfloor>log 2 \<bar>x\<bar>\<rfloor> \<le> \<bar>x\<bar>"
    using floor_log_eq_powr_iff [of "\<bar>x\<bar>" 2 "\<lfloor>log 2 \<bar>x\<bar>\<rfloor>"] pos by simp
  ultimately show ?thesis by simp
qed

lemma double_round_error_normal:
  assumes "x = 0 \<or> 2 powi (- 1022) \<le> \<bar>x\<bar>"
  shows "\<bar>double_round x - x\<bar> \<le> 2 powi (- 53) * \<bar>x\<bar>"
proof (cases "x = 0")
  case True
  then show ?thesis by (simp add: double_round_def)
next
  case False
  with assms have low: "2 powi (- 1022) \<le> \<bar>x\<bar>" by simp
  define e where "e = \<lfloor>log 2 \<bar>x\<bar>\<rfloor>"
  have e: "double_exponent x = e"
    using floor_log_ge [OF low] by (simp add: double_exponent_def e_def)
  have le: "2 powi e \<le> \<bar>x\<bar>"
    unfolding e_def by (rule floor_log_bounds [OF False])
  define q :: real where "q = 2 powi (e - 52)"
  have q: "0 < q" by (simp add: q_def)
  have "\<bar>double_round x - x\<bar> = \<bar>real_of_int (round_half_even (x / q)) - x / q\<bar> * q"
  proof -
    have "double_round x - x = (real_of_int (round_half_even (x / q)) - x / q) * q"
      using False q by (simp add: double_round_def e q_def field_simps)
    then show ?thesis using q by (simp add: abs_mult)
  qed
  also have "\<dots> \<le> 1/2 * q"
    using round_half_even_near [of "x / q"] q by (intro mult_right_mono) simp_all
  also have "1/2 * q = 2 powi (- 53) * 2 powi e"
    by (simp add: q_def power_int_diff power_int_minus field_simps)
  also have "\<dots> \<le> 2 powi (- 53) * \<bar>x\<bar>"
    using le by (intro mult_left_mono) simp_all
  finally show ?thesis .
qed

lemma double_round_error:
  assumes "in_range x"
  shows "\<bar>double_round x - x\<bar> \<le> 2 powi (- 53) * \<bar>x\<bar>"
  using assms by (intro double_round_error_normal) (auto simp: in_range_def)

lemma double_round_nonzero:
  assumes "2 powi (- 1022) \<le> \<bar>x\<bar>"
  shows "double_round x \<noteq> 0"
proof
  assume "double_round x = 0"
  then have "\<bar>x\<bar> \<le> 2 powi (- 53) * \<bar>x\<bar>"
    using double_round_error_normal [of x] assms by simp
  moreover have "0 < \<bar>x\<bar>" using assms(1) by (smt (verit) zero_less_power_int)
  moreover have "(2::real) powi (- 53) < 1" by (simp add: power_int_minus)
  ultimately show False by (smt (verit) mult_less_cancel_right2)
qed

lemma two_roundings:
  assumes "in_range a" "in_range (double_round a * c)"
  shows "\<bar>double_round (double_round a * c) - a * c\<bar>
           \<le> (2 powi (- 52) + 2 powi (- 106)) * \<bar>a * c\<bar>"
proof -
  define u :: real where "u = 2 powi (- 53)"
  have u: "0 \<le> u" and uu: "2 * u + u * u = 2 powi (- 52) + 2 powi (- 106)"
    by (simp_all add: u_def power_int_minus)
  define d where "d = double_round a"
  have 1: "\<bar>d - a\<bar> \<le> u * \<bar>a\<bar>"
    using double_round_error [OF assms(1)] by (simp add: d_def u_def)
  have 2: "\<bar>double_round (d * c) - d * c\<bar> \<le> u * \<bar>d * c\<bar>"
    using double_round_error [OF assms(2)] by (simp add: d_def u_def)
  have 3: "\<bar>d * c - a * c\<bar> \<le> u * \<bar>a * c\<bar>"
  proof -
    have "\<bar>d * c - a * c\<bar> = \<bar>d - a\<bar> * \<bar>c\<bar>"
      by (simp add: abs_mult flip: left_diff_distrib)
    also have "\<dots> \<le> (u * \<bar>a\<bar>) * \<bar>c\<bar>"
      by (rule mult_right_mono [OF 1]) simp
    finally show ?thesis by (simp add: abs_mult mult.assoc)
  qed
  have 4: "\<bar>d * c\<bar> \<le> (1 + u) * \<bar>a * c\<bar>"
  proof -
    have "\<bar>d * c\<bar> \<le> \<bar>a * c\<bar> + \<bar>d * c - a * c\<bar>" by linarith
    with 3 have "\<bar>d * c\<bar> \<le> \<bar>a * c\<bar> + u * \<bar>a * c\<bar>" by linarith
    then show ?thesis by (simp add: algebra_simps)
  qed
  have 5: "u * \<bar>d * c\<bar> \<le> u * ((1 + u) * \<bar>a * c\<bar>)"
    by (rule mult_left_mono [OF 4 u])
  have "\<bar>double_round (d * c) - a * c\<bar> \<le> u * ((1 + u) * \<bar>a * c\<bar>) + u * \<bar>a * c\<bar>"
    using 2 3 5 by linarith
  also have "\<dots> = (2 * u + u * u) * \<bar>a * c\<bar>"
    by (simp add: algebra_simps)
  finally show ?thesis by (simp add: uu d_def)
qed

lemma in_range_moderate:
  assumes "2 powi (- 64) \<le> \<bar>x\<bar>" "\<bar>x\<bar> \<le> 2 powi 64"
  shows "in_range x"
proof -
  have "(2::real) powi (- 1022) \<le> 2 powi (- 64)"
    by (rule power_int_increasing) simp_all
  with assms(1) have low: "2 powi (- 1022) \<le> \<bar>x\<bar>" by linarith
  have "(2::real) powi 64 \<le> 2 powi 1023"
    by (rule power_int_increasing) simp_all
  also have "\<dots> \<le> (2 - 2 powi (- 52)) * 2 powi 1023"
  proof -
    have "(1::real) \<le> 2 - 2 powi (- 52)" by (simp add: power_int_minus)
    then have "1 * (2::real) powi 1023 \<le> (2 - 2 powi (- 52)) * 2 powi 1023"
      by (intro mult_right_mono) simp_all
    then show ?thesis by simp
  qed
  finally have "\<bar>x\<bar> \<le> (2 - 2 powi (- 52)) * 2 powi 1023" using assms(2) by linarith
  with low show ?thesis by (simp add: in_range_def)
qed

lemma smallest_normal_small: "(2::real) powi (- 1022) \<le> 4 / 1461"
proof -
  have "(2::real) powi (- 1022) \<le> 2 powi (- 9)"
    by (rule power_int_increasing) simp_all
  also have "\<dots> \<le> 4 / 1461" by (simp add: power_int_minus)
  finally show ?thesis .
qed

lemma years_nonzero:
  assumes "start_date \<noteq> end_date"
  shows "fdiv (real_of_int (end_date - start_date)) 365.25 \<noteq> 0"
proof -
  define d where "d = end_date - start_date"
  have "d \<noteq> 0" using assms by (simp add: d_def)
  then have "1 \<le> \<bar>d\<bar>" by linarith
  then have d: "1 \<le> \<bar>real_of_int d\<bar>" by linarith
  have "\<bar>real_of_int d / 365.25\<bar> = \<bar>real_of_int d\<bar> * (4 / 1461)" by simp
  with d have "4 / 1461 \<le> \<bar>real_of_int d / 365.25\<bar>" by simp
  with smallest_normal_small have "2 powi (- 1022) \<le> \<bar>real_of_int d / 365.25\<bar>" by linarith
  from double_round_nonzero [OF this] show ?thesis by (simp add: fdiv_def d_def)
qed

lemma calculate_returns_double_value:
  assumes "yf ticker s e = Some data" "2 \<le> length data" "s \<noteq> e"
  shows "\<exists>real_annual final_value.
           calculate_returns_double yf ticker amt s e infl ir =
             ([Yf_download ticker],
              Inr (Some (fdiv (fsub (last data) (hd data)) (hd data)), Some real_annual, Some final_value))"
  using assms years_nonzero [OF assms(3)]
  by (auto simp: calculate_returns_double_def Let_def)

lemma calculate_returns_double_events:
  "fst (calculate_returns_double yf ticker amt s e infl ir) = fst (calculate_returns yf ticker amt s e infl ir)"
proof (cases "s = e")
  case True
  then show ?thesis
    by (simp add: calculate_returns_double_def calculate_returns_def Let_def years_between_def
          fdiv_def double_round_def split: option.splits)
next
  case False
  then have "years_between s e \<noteq> 0" by (simp add: years_between_def)
  with years_nonzero [OF False] show ?thesis
    by (simp add: calculate_returns_double_def calculate_returns_def Let_def split: option.splits)
qed

lemma calculate_returns_double_outcome:
  "(snd (calculate_returns_double yf ticker amt s e infl ir) = Inl err
      \<longleftrightarrow> snd (calculate_returns yf ticker amt s e infl ir) = Inl err)
   \<and> (snd (calculate_returns_double yf ticker amt s e infl ir) = Inr (None, None, None)
      \<longleftrightarrow> snd (calculate_returns yf ticker amt s e infl ir) = Inr (None, None, None))"
proof (cases "s = e")
  case True
  then show ?thesis
    by (simp add: calculate_returns_double_def calculate_returns_def Let_def years_between_def
          fdiv_def double_round_def split: option.splits)
next
  case False
  then have "years_between s e \<noteq> 0" by (simp add: years_between_def)
  with years_nonzero [OF False] show ?thesis
    by (simp add: calculate_returns_double_def calculate_returns_def Let_def split: option.splits)
qed

lemma total_return_double_error:
  assumes "hd_price \<noteq> 0" "in_range (last_price - hd_price)"
    and "in_range (fsub last_price hd_price / hd_price)"
  shows "\<bar>fdiv (fsub last_price hd_price) hd_price - (last_price / hd_price - 1)\<bar>
           \<le> (2 powi (- 52) + 2 powi (- 106)) * \<bar>last_price / hd_price - 1\<bar>"
proof -
  have eq: "(last_price - hd_price) * (1 / hd_price) = last_price / hd_price - 1"
    using assms(1) by (simp add: field_simps)
  from assms(3) have "in_range (double_round (last_price - hd_price) * (1 / hd_price))"
    by (simp add: fsub_def)
  from two_roundings [OF assms(2) this] show ?thesis
    by (simp add: fdiv_def fsub_def eq [simplified])
qed




text \<open>The roundings used in the examples.\<close>

lemma double_20: "double_round 20 = 20"
  using double_round_exact [of 4 20 5629499534213120] by simp

lemma double_50: "double_round 50 = 50"
  using double_round_exact [of 5 50 7036874417766400] by simp

lemma double_half: "double_round (1/2) = 1/2"
  using double_round_exact [of "-1" "1/2" 4503599627370496] by simp


lemma double_fifth: "double_round (1/5) = 7205759403792794 / 2 ^ 55"
  using double_round_eq [of "-3" "1/5" 7205759403792794] by simp

lemma double_six_fifths: "double_round (6/5) = 5404319552844595 / 2 ^ 52"
  using double_round_eq [of 0 "6/5" 5404319552844595] by simp

lemma double_six_fifths_less_one:
  "double_round (5404319552844595 / 2 ^ 52 - 1) = 900719925474099 / 2 ^ 52"
  using double_round_exact [of "-3" "5404319552844595 / 2 ^ 52 - 1" 7205759403792792] by simp





subsection \<open>Claims about the evaluator\<close>

text \<open>
  C1, as amended: for every price series with at least 2 points and positive prices, on a
  date range whose two days differ, the total return is
  \<open>(final_price - initial_price) / initial_price\<close> in double precision, the rounded
  quotient of the rounded difference; the initial price is the first value of the series
  and the final price the last. In exact arithmetic the expression is \<open>last / first - 1\<close>;
  the double differs from that number by at most the factor \<open>2 powi (-52) + 2 powi (-106)\<close>
  of it when the difference and the quotient are in range.
\<close>

theorem total_return_up_to_rounding:
  assumes "yf ticker start_date end_date = Some data"
    and "2 \<le> length data"
    and "\<forall>p\<in>set data. 0 < p"
    and "start_date \<noteq> end_date"
  shows "(\<exists>real_annual final_value.
            snd (calculate_returns_double yf ticker amt start_date end_date infl ir)
              = Inr (Some (fdiv (fsub (last data) (hd data)) (hd data)),
                     Some real_annual, Some final_value))
       \<and> (last data - hd data) / hd data = last data / hd data - 1
       \<and> (in_range (last data - hd data) \<and> in_range (fsub (last data) (hd data) / hd data) \<longrightarrow>
            \<bar>fdiv (fsub (last data) (hd data)) (hd data) - (last data / hd data - 1)\<bar>
              \<le> (2 powi (- 52) + 2 powi (- 106)) * \<bar>last data / hd data - 1\<bar>)"
proof -
  have nz: "hd data \<noteq> 0" using hd_pos [OF assms(2,3)] by simp
  have returned: "\<exists>real_annual final_value.
            snd (calculate_returns_double yf ticker amt start_date end_date infl ir)
              = Inr (Some (fdiv (fsub (last data) (hd data)) (hd data)),
                     Some real_annual, Some final_value)"
    using calculate_returns_double_value [of yf ticker start_date end_date data amt infl ir, OF assms(1,2,4)]
    by auto
  have exact: "(last data - hd data) / hd data = last data / hd data - 1"
    using nz by (simp add: diff_divide_distrib)
  have "\<bar>fdiv (fsub (last data) (hd data)) (hd data) - (last data / hd data - 1)\<bar>
              \<le> (2 powi (- 52) + 2 powi (- 106)) * \<bar>last data / hd data - 1\<bar>"
    if "in_range (last data - hd data) \<and> in_range (fsub (last data) (hd data) / hd data)"
    using that by (intro total_return_double_error [OF nz]) simp_all
  with returned exact show ?thesis by blast
qed

text \<open>The series 100, 120, 150 from 2021-01-01 to 2022-01-01.\<close>

theorem total_return_up_to_rounding_witness:
  "(\<exists>real_annual final_value.
      snd (calculate_returns_double (\<lambda>_ _ _. Some [100, 120, 150]) ''XU100.IS'' 1000 737791 738156 0 0)
        = Inr (Some (fdiv (fsub 150 100) 100), Some real_annual, Some final_value))
   \<and> \<bar>fdiv (fsub 150 100) 100 - (150 / 100 - 1)\<bar>
        \<le> (2 powi (- 52) + 2 powi (- 106)) * \<bar>150 / 100 - 1 :: real\<bar>"
proof -
  have a: "in_range (150 - 100)"
    by (rule in_range_moderate) (simp_all add: power_int_minus)
  have b: "in_range (fsub 150 100 / 100)"
    by (rule in_range_moderate) (simp_all add: fsub_def double_50 power_int_minus)
  from a b
    total_return_up_to_rounding [of "\<lambda>_ _ _. Some [100, 120, 150]" "''XU100.IS''" 737791 738156
      "[100, 120, 150]" 1000 0 0]
  show ?thesis by simp
qed

text \<open>
  C1 as stated fails for the series 100, 120: the total return is the double nearest to
  \<open>1/5\<close>, written 0.2, which is neither the number \<open>120 / 100 - 1\<close> nor the double that
  \<^verbatim>\<open>120 / 100 - 1\<close> evaluates to, written 0.19999999999999996.
\<close>

theorem relative_gain_not_exact_counterexample:
  "fst (projr (snd (calculate_returns_double (\<lambda>_ _ _. Some [100, 120]) ''XU100.IS'' 1000 737791 738156 0 0)))
     = Some (7205759403792794 / 2 ^ 55)
   \<and> fsub (fdiv 120 100) 1 = 900719925474099 / 2 ^ 52
   \<and> (7205759403792794 / 2 ^ 55 :: real) \<noteq> 900719925474099 / 2 ^ 52
   \<and> (7205759403792794 / 2 ^ 55 :: real) \<noteq> 120 / 100 - 1"
proof -
  obtain ra fv where
    "calculate_returns_double (\<lambda>_ _ _. Some [100, 120]) ''XU100.IS'' 1000 737791 738156 0 0
       = ([Yf_download ''XU100.IS''], Inr (Some (fdiv (fsub (last [100, 120]) (hd [100, 120])) (hd [100, 120])), Some ra, Some fv))"
    using calculate_returns_double_value [of "\<lambda>_ _ _. Some [100, 120]" "''XU100.IS''" 737791 738156
        "[100, 120]" 1000 0 0]
    by auto
  then have "fst (projr (snd (calculate_returns_double (\<lambda>_ _ _. Some [100, 120]) ''XU100.IS'' 1000 737791 738156 0 0)))
     = Some (fdiv (fsub 120 100) 100)"
    by simp
  moreover have "fdiv (fsub 120 100) 100 = 7205759403792794 / 2 ^ 55"
    by (simp add: fdiv_def fsub_def double_20 double_fifth)
  moreover have "fsub (fdiv 120 100) 1 = 900719925474099 / 2 ^ 52"
  proof -
    have "(120::real) / 100 = 6 / 5" by simp
    then have "fdiv 120 100 = 5404319552844595 / 2 ^ 52"
      unfolding fdiv_def by (simp only: double_six_fifths)
    then show ?thesis
      unfolding fsub_def by (simp only: double_six_fifths_less_one)
  qed
  ultimately show ?thesis by simp
qed




text \<open>
  C4, as amended: the evaluator returns the failure triple exactly when the download
  raises or the series has fewer than 2 points; on a series of 1 point it prints
  \<^verbatim>\<open>Insufficient data found\<close> and returns the failure triple. The date range is not
  checked: with at least 2 points and the end before the start it returns three numbers.
\<close>

theorem failure_signal_iff_insufficient_data:
  "(snd (calculate_returns yf ticker amt start_date end_date infl ir) = Inr (None, None, None)
      \<longleftrightarrow> (case yf ticker start_date end_date of None \<Rightarrow> True | Some data \<Rightarrow> length data < 2))
   \<and> (\<forall>p. yf ticker start_date end_date = Some [p] \<longrightarrow>
         calculate_returns yf ticker amt start_date end_date infl ir
           = ([Yf_download ticker, Print (Insufficient_data_found ticker)], Inr (None, None, None)))
   \<and> (\<forall>data. yf ticker start_date end_date = Some data \<and> 2 \<le> length data \<and> end_date < start_date \<longrightarrow>
         (\<exists>total_return real_annual final_value.
            snd (calculate_returns yf ticker amt start_date end_date infl ir)
              = Inr (Some total_return, Some real_annual, Some final_value)))"
proof (intro conjI allI impI)
  show "snd (calculate_returns yf ticker amt start_date end_date infl ir) = Inr (None, None, None)
      \<longleftrightarrow> (case yf ticker start_date end_date of None \<Rightarrow> True | Some data \<Rightarrow> length data < 2)"
    by (auto simp: calculate_returns_def Let_def split: option.splits)
next
  fix p assume "yf ticker start_date end_date = Some [p]"
  then show "calculate_returns yf ticker amt start_date end_date infl ir
           = ([Yf_download ticker, Print (Insufficient_data_found ticker)], Inr (None, None, None))"
    by (simp add: calculate_returns_def)
next
  fix data
  assume "yf ticker start_date end_date = Some data \<and> 2 \<le> length data \<and> end_date < start_date"
  then show "\<exists>total_return real_annual final_value.
            snd (calculate_returns yf ticker amt start_date end_date infl ir)
              = Inr (Some total_return, Some real_annual, Some final_value)"
    by (simp add: calculate_returns_value [of yf ticker start_date end_date data])
qed

text \<open>A series of one point; and the series 100, 150 from 2022-01-01 back to 2021-01-01.\<close>

theorem failure_signal_iff_insufficient_data_witness:
  "calculate_returns (\<lambda>_ _ _. Some [100]) ''^GSPC'' 1000 737791 738156 0 0
     = ([Yf_download ''^GSPC'', Print (Insufficient_data_found ''^GSPC'')], Inr (None, None, None))
   \<and> (\<exists>total_return real_annual final_value.
        snd (calculate_returns (\<lambda>_ _ _. Some [100, 150]) ''^GSPC'' 1000 738156 737791 0 0)
          = Inr (Some total_return, Some real_annual, Some final_value))"
  using failure_signal_iff_insufficient_data [of "\<lambda>_ _ _. Some [100]" "''^GSPC''" 1000 737791 738156 0 0]
    failure_signal_iff_insufficient_data [of "\<lambda>_ _ _. Some [100, 150]" "''^GSPC''" 1000 738156 737791 0 0]
  by simp

text \<open>
  C4 as stated fails for the series 100, 150 from 2022-01-01 back to 2021-01-01:
  \<open>years\<close> is negative and the evaluator returns numbers, not the failure triple.
\<close>

theorem reversed_dates_counterexample:
  "years_between 738156 737791 \<le> 0
   \<and> snd (calculate_returns (\<lambda>_ _ _. Some [100, 150]) ''XU100.IS'' 1000 738156 737791 0 0)
       = Inr (Some (1/2), Some ((3/2) powr (1 / years_between 738156 737791) - 1), Some 1500)"
  using scenario_final_value [of "years_between 738156 737791"]
  by (simp add: calculate_returns_value [of "\<lambda>_ _ _. Some [100, 150]" _ _ _ "[100, 150]"])
     (simp add: years_between_def calculate_real_return_def float_pow_def)

text \<open>
  C9: the interest rate is accepted and never used: two calls that differ only in the
  interest rate have the same events and the same outcome.
\<close>

theorem interest_rate_unused:
  "calculate_returns yf ticker amt start_date end_date infl r1
     = calculate_returns yf ticker amt start_date end_date infl r2"
  by (simp add: calculate_returns_def)

text \<open>
  C10, as amended: a triple returned by the evaluator is never mixed: its three components
  are all \<^verbatim>\<open>None\<close> or all defined. The evaluator returns such a triple on every input
  whose two dates differ, whose download raises or whose series has fewer than 2 points.
\<close>

theorem returns_all_or_nothing:
  "(\<forall>a b c. snd (calculate_returns yf ticker amt start_date end_date infl ir) = Inr (a, b, c) \<longrightarrow>
       (a = None \<and> b = None \<and> c = None) \<or> (a \<noteq> None \<and> b \<noteq> None \<and> c \<noteq> None))
   \<and> (start_date \<noteq> end_date \<or> yf ticker start_date end_date = None
        \<or> (\<exists>data. yf ticker start_date end_date = Some data \<and> length data < 2) \<longrightarrow>
         snd (calculate_returns yf ticker amt start_date end_date infl ir) = Inr (None, None, None)
         \<or> (\<exists>total_return real_annual final_value.
               snd (calculate_returns yf ticker amt start_date end_date infl ir)
                 = Inr (Some total_return, Some real_annual, Some final_value)))"
  by (auto simp: calculate_returns_def Let_def years_between_def split: option.splits)

text \<open>A series of 2 points over 365 days; a download that raises, on a single day.\<close>

theorem returns_all_or_nothing_witness:
  "(snd (calculate_returns (\<lambda>_ _ _. Some [100, 150]) ''XU100.IS'' 1000 737791 738156 0 0) = Inr (None, None, None)
    \<or> (\<exists>total_return real_annual final_value.
         snd (calculate_returns (\<lambda>_ _ _. Some [100, 150]) ''XU100.IS'' 1000 737791 738156 0 0)
           = Inr (Some total_return, Some real_annual, Some final_value)))
   \<and> snd (calculate_returns (\<lambda>_ _ _. None) ''XU100.IS'' 1000 737791 737791 0 0) = Inr (None, None, None)"
  using returns_all_or_nothing [of "\<lambda>_ _ _. Some [100, 150]" "''XU100.IS''" 1000 737791 738156 0 0]
    returns_all_or_nothing [of "\<lambda>_ _ _. None" "''XU100.IS''" 1000 737791 737791 0 0]
  by (simp add: calculate_returns_short)

text \<open>
  C10 as stated fails when the two dates are the same day and the series has 2 points:
  \<^verbatim>\<open>1/years\<close> raises \<^verbatim>\<open>ZeroDivisionError\<close> and no triple is returned.
\<close>

theorem same_day_counterexample:
  "calculate_returns (\<lambda>_ _ _. Some [100, 150]) ''XU100.IS'' 1000 737791 737791 0 0
     = ([Yf_download ''XU100.IS''], Inl ZeroDivisionError)"
  by (simp add: calculate_returns_raise [of "\<lambda>_ _ _. Some [100, 150]" _ _ _ "[100, 150]"])

subsection \<open>Facts about the aggregation and the conversion\<close>

lemma length_pct_change: "length (pct_change xs) = length xs - 1"
  by (induction xs rule: pct_change.induct) simp_all

lemma nth_pct_change: "Suc i < length xs \<Longrightarrow> pct_change xs ! i = xs ! Suc i / xs ! i - 1"
proof (induction xs arbitrary: i rule: pct_change.induct)
  case (1 x y xs)
  then show ?case by (cases i) simp_all
qed simp_all

lemma sum_pct_change:
  "sum_list (pct_change xs) = (\<Sum>i = 0..<length xs - 1. xs ! Suc i / xs ! i - 1)"
  by (simp add: sum_list_sum_nth length_pct_change nth_pct_change)

subsection \<open>Facts about the orchestration\<close>

lemma main_parse_error:
  "amount_input w = None \<or> start_input w = None \<or> end_input w = None \<Longrightarrow>
   main w = ([], Some ValueError)"
  by (auto simp: main_def split: option.splits)

lemma main_currency_failure:
  assumes "amount_input w = Some amount" "start_input w = Some s" "end_input w = Some e"
    and "yf_download w ''USDTRY=X'' s e = None
         \<or> (\<exists>d. yf_download w ''USDTRY=X'' s e = Some d \<and> length d < 2)"
  shows "main w = ([Yf_download ''USDTRY=X'', Print USDTRY_download_error], None)
       \<or> main w = ([Yf_download ''USDTRY=X'', Print Insufficient_USDTRY_data], None)"
  using assms by (auto simp: main_def)

lemma main_fred_failure:
  assumes "amount_input w = Some amount" "start_input w = Some s" "end_input w = Some e"
    and "yf_download w ''USDTRY=X'' s e = Some u" "2 \<le> length u"
    and "get_data_fred w ''TURCPIALLMINMEI'' s e = None \<or> get_data_fred w ''CPIAUCSL'' s e = None
         \<or> get_data_fred w ''IR3TIB01TRM156N'' s e = None \<or> get_data_fred w ''FEDFUNDS'' s e = None"
  shows "main w = (Yf_download ''USDTRY=X'' # economic_fetches w s e @ [Print Unable_to_fetch_rates], None)"
  using assms
  by (auto simp: main_def Let_def get_fred_data_def economic_fetches_def split: option.splits)

lemma main_reached:
  assumes "amount_input w = Some amount" "start_input w = Some s" "end_input w = Some e"
    and "yf_download w ''USDTRY=X'' s e = Some u" "2 \<le> length u"
    and "get_data_fred w ''TURCPIALLMINMEI'' s e = Some ti" "get_data_fred w ''CPIAUCSL'' s e = Some ui"
    and "get_data_fred w ''IR3TIB01TRM156N'' s e = Some tir" "get_data_fred w ''FEDFUNDS'' s e = Some uir"
    and "calculate_returns (yf_download w) ''XU100.IS'' (to_usd amount (hd u)) s e
           (annual_inflation ti) (average_interest tir) = (t5, bist)"
    and "calculate_returns (yf_download w) ''^GSPC'' (to_usd amount (hd u)) s e
           (annual_inflation ui) (average_interest uir) = (t6, sp500)"
  shows "main w =
     (let fetched = [Yf_download ''USDTRY=X'', Fred_fetch ''TURCPIALLMINMEI'', Fred_fetch ''CPIAUCSL'',
                     Fred_fetch ''IR3TIB01TRM156N'', Fred_fetch ''FEDFUNDS'']
      in case bist of
           Inl err \<Rightarrow> (fetched @ t5, Some err)
         | Inr b \<Rightarrow>
            (case sp500 of
               Inl err \<Rightarrow> (fetched @ t5 @ t6, Some err)
             | Inr sp \<Rightarrow> (fetched @ t5 @ t6 @ fst (present amount (hd u) (last u) b sp),
                           snd (present amount (hd u) (last u) b sp))))"
proof -
  from assms(5) have "u \<noteq> []" by auto
  with assms show ?thesis
    by (simp add: main_def Let_def get_fred_data_def split: sum.splits prod.splits)
qed

lemma present_failure:
  "a = None \<or> a' = None \<Longrightarrow>
   present amount r0 r1 (a, b, c) (a', b', c') = ([Print Calculation_error], None)"
  by (auto simp: present_def split: option.splits)

lemma present_success:
  "present amount r0 r1 (Some a, Some b, Some c) (Some a', Some b', Some c') =
     ([Print (Initial_investment amount), Print (Initial_rate r0), Print (Final_rate r1),
       Print (Results_header ''BIST 100''), Print (Total_nominal_return (a * 100)),
       Print (Annual_real_return (b * 100)), Print (Final_value (to_tl c r1)),
       Print (Results_header ''S&P 500''), Print (Total_nominal_return (a' * 100)),
       Print (Annual_real_return (b' * 100)), Print (Final_value (to_tl c' r1)),
       Show_chart [to_tl c r1, to_tl c' r1]], None)"
  by (simp add: present_def Let_def)

lemma calculate_returns_cases:
  "(\<exists>m. \<not> result_message m \<and> calculate_returns yf ticker amt s e infl ir
                      = ([Yf_download ticker, Print m], Inr (None, None, None)))
   \<or> calculate_returns yf ticker amt s e infl ir = ([Yf_download ticker], Inl ZeroDivisionError)
   \<or> (\<exists>a b c. calculate_returns yf ticker amt s e infl ir
                      = ([Yf_download ticker], Inr (Some a, Some b, Some c)))"
proof (cases "yf ticker s e")
  case None
  then have "calculate_returns yf ticker amt s e infl ir
      = ([Yf_download ticker, Print Data_download_error], Inr (None, None, None))"
    by (simp add: calculate_returns_def)
  moreover have "\<not> result_message Data_download_error"
    by (simp add: result_message_def)
  ultimately show ?thesis by blast
next
  case (Some data)
  show ?thesis
  proof (cases "length data < 2")
    case True
    with Some have "calculate_returns yf ticker amt s e infl ir
        = ([Yf_download ticker, Print (Insufficient_data_found ticker)], Inr (None, None, None))"
      by (simp add: calculate_returns_def)
    moreover have "\<not> result_message (Insufficient_data_found ticker)"
      by (simp add: result_message_def)
    ultimately show ?thesis by blast
  next
    case False
    then have long: "2 \<le> length data" by simp
    show ?thesis
    proof (cases "s = e")
      case True
      then show ?thesis
        using calculate_returns_raise [of yf ticker s e data, OF Some long] by simp
    next
      case False
      then show ?thesis
        using calculate_returns_value [of yf ticker s e data, OF Some long] by simp
    qed
  qed
qed

lemma returned_cases:
  assumes "snd (calculate_returns yf ticker amt s e infl ir) = Inr r"
  shows "(\<exists>m. \<not> result_message m \<and> r = (None, None, None)
              \<and> fst (calculate_returns yf ticker amt s e infl ir) = [Yf_download ticker, Print m])
       \<or> (\<exists>a b c. r = (Some a, Some b, Some c)
              \<and> fst (calculate_returns yf ticker amt s e infl ir) = [Yf_download ticker])"
  using assms calculate_returns_cases [of yf ticker amt s e infl ir] by auto

lemma main_both_returned:
  assumes "amount_input w = Some amount" "start_input w = Some s" "end_input w = Some e"
    and "yf_download w ''USDTRY=X'' s e = Some u" "2 \<le> length u"
    and "get_data_fred w ''TURCPIALLMINMEI'' s e = Some ti" "get_data_fred w ''CPIAUCSL'' s e = Some ui"
    and "get_data_fred w ''IR3TIB01TRM156N'' s e = Some tir" "get_data_fred w ''FEDFUNDS'' s e = Some uir"
    and "calculate_returns (yf_download w) ''XU100.IS'' (to_usd amount (hd u)) s e
           (annual_inflation ti) (average_interest tir) = (t5, Inr bist)"
    and "calculate_returns (yf_download w) ''^GSPC'' (to_usd amount (hd u)) s e
           (annual_inflation ui) (average_interest uir) = (t6, Inr sp500)"
  shows "main w =
     ([Yf_download ''USDTRY=X'', Fred_fetch ''TURCPIALLMINMEI'', Fred_fetch ''CPIAUCSL'',
       Fred_fetch ''IR3TIB01TRM156N'', Fred_fetch ''FEDFUNDS'']
      @ t5 @ t6 @ fst (present amount (hd u) (last u) bist sp500),
      snd (present amount (hd u) (last u) bist sp500))"
  using main_reached [OF assms] by simp

lemma main_starts_with_currency:
  assumes "amount_input w = Some amount" "start_input w = Some s" "end_input w = Some e"
    and "yf_download w ''USDTRY=X'' s e = Some u" "2 \<le> length u"
  shows "hd (fst (main w)) = Yf_download ''USDTRY=X''"
proof -
  from assms(5) have "u \<noteq> []" by auto
  with assms show ?thesis
    by (simp add: main_def Let_def split: option.splits sum.splits prod.splits)
qed

lemma main_report:
  assumes "amount_input w = Some amount" "start_input w = Some s" "end_input w = Some e"
    and "yf_download w ''USDTRY=X'' s e = Some u" "2 \<le> length u"
    and "get_data_fred w ''TURCPIALLMINMEI'' s e = Some ti" "get_data_fred w ''CPIAUCSL'' s e = Some ui"
    and "get_data_fred w ''IR3TIB01TRM156N'' s e = Some tir" "get_data_fred w ''FEDFUNDS'' s e = Some uir"
    and "snd (calculate_returns (yf_download w) ''XU100.IS'' (to_usd amount (hd u)) s e
           (annual_inflation ti) (average_interest tir)) = Inr bist"
    and "snd (calculate_returns (yf_download w) ''^GSPC'' (to_usd amount (hd u)) s e
           (annual_inflation ui) (average_interest uir)) = Inr sp500"
  shows "snd (main w) = None
      \<and> (if fst bist \<noteq> None \<and> fst sp500 \<noteq> None
         then presents_results (fst (main w))
              \<and> Print Calculation_error \<notin> set (fst (main w))
              \<and> (\<exists>values. last (fst (main w)) = Show_chart values)
         else \<not> presents_results (fst (main w))
              \<and> last (fst (main w)) = Print Calculation_error)"
proof -
  obtain t5 where b: "calculate_returns (yf_download w) ''XU100.IS'' (to_usd amount (hd u)) s e
           (annual_inflation ti) (average_interest tir) = (t5, Inr bist)"
    using assms(10) by (metis prod.collapse)
  obtain t6 where p: "calculate_returns (yf_download w) ''^GSPC'' (to_usd amount (hd u)) s e
           (annual_inflation ui) (average_interest uir) = (t6, Inr sp500)"
    using assms(11) by (metis prod.collapse)
  note run = main_both_returned [OF assms(1-9) b p]
  from returned_cases [OF assms(10)] b
  consider (bfail) m where "\<not> result_message m" "bist = (None, None, None)"
      "t5 = [Yf_download ''XU100.IS'', Print m]"
    | (bok) a1 a2 a3 where "bist = (Some a1, Some a2, Some a3)" "t5 = [Yf_download ''XU100.IS'']"
    by auto
  then show ?thesis
  proof cases
    case bfail
    obtain x y z where "sp500 = (x, y, z)" by (cases sp500)
    with bfail have pr: "present amount (hd u) (last u) bist sp500 = ([Print Calculation_error], None)"
      by (simp add: present_failure)
    from returned_cases [OF assms(11)] p
    have "\<not> list_ex is_result t6" by auto
    with bfail show ?thesis
      unfolding run pr by (simp add: presents_results_def result_message_def)
  next
    case bok
    from returned_cases [OF assms(11)] p
    consider (pfail) m where "\<not> result_message m" "sp500 = (None, None, None)"
        "t6 = [Yf_download ''^GSPC'', Print m]"
      | (pok) c1 c2 c3 where "sp500 = (Some c1, Some c2, Some c3)" "t6 = [Yf_download ''^GSPC'']"
      by auto
    then show ?thesis
    proof cases
      case pfail
      with bok have pr: "present amount (hd u) (last u) bist sp500 = ([Print Calculation_error], None)"
        by (simp add: present_failure)
      from bok pfail show ?thesis
        unfolding run pr by (simp add: presents_results_def result_message_def)
    next
      case pok
      from bok pok show ?thesis
        unfolding run by (simp add: present_success presents_results_def result_message_def)
    qed
  qed
qed

lemma main_results_iff:
  assumes "amount_input w = Some amount" "start_input w = Some s" "end_input w = Some e"
    and "yf_download w ''USDTRY=X'' s e = Some u" "2 \<le> length u"
    and "get_data_fred w ''TURCPIALLMINMEI'' s e = Some ti" "get_data_fred w ''CPIAUCSL'' s e = Some ui"
    and "get_data_fred w ''IR3TIB01TRM156N'' s e = Some tir" "get_data_fred w ''FEDFUNDS'' s e = Some uir"
  shows "presents_results (fst (main w)) \<longleftrightarrow>
     (\<exists>b1 b2 b3 s1 s2 s3.
        snd (calculate_returns (yf_download w) ''XU100.IS'' (to_usd amount (hd u)) s e
           (annual_inflation ti) (average_interest tir)) = Inr (Some b1, Some b2, Some b3)
      \<and> snd (calculate_returns (yf_download w) ''^GSPC'' (to_usd amount (hd u)) s e
           (annual_inflation ui) (average_interest uir)) = Inr (Some s1, Some s2, Some s3))"
proof -
  obtain t5 bist where b: "calculate_returns (yf_download w) ''XU100.IS'' (to_usd amount (hd u)) s e
           (annual_inflation ti) (average_interest tir) = (t5, bist)"
    by (cases "calculate_returns (yf_download w) ''XU100.IS'' (to_usd amount (hd u)) s e
           (annual_inflation ti) (average_interest tir)")
  obtain t6 sp500 where p: "calculate_returns (yf_download w) ''^GSPC'' (to_usd amount (hd u)) s e
           (annual_inflation ui) (average_interest uir) = (t6, sp500)"
    by (cases "calculate_returns (yf_download w) ''^GSPC'' (to_usd amount (hd u)) s e
           (annual_inflation ui) (average_interest uir)")
  note run = main_reached [OF assms b p]
  from calculate_returns_cases [of "yf_download w" "''XU100.IS''" "to_usd amount (hd u)" s e
           "annual_inflation ti" "average_interest tir"]
    calculate_returns_cases [of "yf_download w" "''^GSPC''" "to_usd amount (hd u)" s e
           "annual_inflation ui" "average_interest uir"]
  show ?thesis
    unfolding b p run
    by (auto simp: presents_results_def present_failure present_success result_message_def)
qed

lemma economic_fetches_no_results: "\<not> list_ex is_result (economic_fetches w s e)"
  by (simp add: economic_fetches_def get_fred_data_def result_message_def split: option.splits)

lemma results_need_all_fetches:
  assumes "presents_results (fst (main w))"
  shows "\<exists>amount s e u ti ui tir uir.
           amount_input w = Some amount \<and> start_input w = Some s \<and> end_input w = Some e
         \<and> yf_download w ''USDTRY=X'' s e = Some u \<and> 2 \<le> length u
         \<and> get_data_fred w ''TURCPIALLMINMEI'' s e = Some ti
         \<and> get_data_fred w ''CPIAUCSL'' s e = Some ui
         \<and> get_data_fred w ''IR3TIB01TRM156N'' s e = Some tir
         \<and> get_data_fred w ''FEDFUNDS'' s e = Some uir"
proof -
  have "\<not> (amount_input w = None \<or> start_input w = None \<or> end_input w = None)"
  proof
    assume "amount_input w = None \<or> start_input w = None \<or> end_input w = None"
    from main_parse_error [OF this] assms show False
      by (simp add: presents_results_def)
  qed
  then obtain amount s e where
    parse: "amount_input w = Some amount" "start_input w = Some s" "end_input w = Some e"
    by auto
  have "\<not> (yf_download w ''USDTRY=X'' s e = None
            \<or> (\<exists>d. yf_download w ''USDTRY=X'' s e = Some d \<and> length d < 2))"
  proof
    assume "yf_download w ''USDTRY=X'' s e = None
            \<or> (\<exists>d. yf_download w ''USDTRY=X'' s e = Some d \<and> length d < 2)"
    from main_currency_failure [OF parse this] assms show False
      by (auto simp: presents_results_def result_message_def)
  qed
  then obtain u where u: "yf_download w ''USDTRY=X'' s e = Some u" "2 \<le> length u"
    by (cases "yf_download w ''USDTRY=X'' s e") (auto simp: not_less)
  have "\<not> (get_data_fred w ''TURCPIALLMINMEI'' s e = None \<or> get_data_fred w ''CPIAUCSL'' s e = None
         \<or> get_data_fred w ''IR3TIB01TRM156N'' s e = None \<or> get_data_fred w ''FEDFUNDS'' s e = None)"
  proof
    assume "get_data_fred w ''TURCPIALLMINMEI'' s e = None \<or> get_data_fred w ''CPIAUCSL'' s e = None
         \<or> get_data_fred w ''IR3TIB01TRM156N'' s e = None \<or> get_data_fred w ''FEDFUNDS'' s e = None"
    from main_fred_failure [OF parse u this] assms economic_fetches_no_results [of w s e]
    show False
      by (simp add: presents_results_def result_message_def)
  qed
  with parse u show ?thesis by auto
qed


lemma main_ends:
  "presents_results (fst (main w))
   \<or> (\<exists>err. snd (main w) = Some err)
   \<or> (\<exists>m. fst (main w) \<noteq> [] \<and> last (fst (main w)) = Print m \<and> \<not> result_message m)"
proof (cases "amount_input w = None \<or> start_input w = None \<or> end_input w = None")
  case True
  from main_parse_error [OF this] show ?thesis by simp
next
  case False
  then obtain amount s e where
    parse: "amount_input w = Some amount" "start_input w = Some s" "end_input w = Some e"
    by auto
  show ?thesis
  proof (cases "yf_download w ''USDTRY=X'' s e = None
            \<or> (\<exists>d. yf_download w ''USDTRY=X'' s e = Some d \<and> length d < 2)")
    case True
    from main_currency_failure [OF parse this] show ?thesis
      by (auto simp: result_message_def)
  next
    case False
    then obtain u where u: "yf_download w ''USDTRY=X'' s e = Some u" "2 \<le> length u"
      by (cases "yf_download w ''USDTRY=X'' s e") (auto simp: not_less)
    show ?thesis
    proof (cases "get_data_fred w ''TURCPIALLMINMEI'' s e = None \<or> get_data_fred w ''CPIAUCSL'' s e = None
         \<or> get_data_fred w ''IR3TIB01TRM156N'' s e = None \<or> get_data_fred w ''FEDFUNDS'' s e = None")
      case True
      from main_fred_failure [OF parse u this] show ?thesis
        by (simp add: result_message_def)
    next
      case False
      then obtain ti ui tir uir where
        fred: "get_data_fred w ''TURCPIALLMINMEI'' s e = Some ti" "get_data_fred w ''CPIAUCSL'' s e = Some ui"
          "get_data_fred w ''IR3TIB01TRM156N'' s e = Some tir" "get_data_fred w ''FEDFUNDS'' s e = Some uir"
        by auto
      obtain t5 bist where b: "calculate_returns (yf_download w) ''XU100.IS'' (to_usd amount (hd u)) s e
           (annual_inflation ti) (average_interest tir) = (t5, bist)"
        by (cases "calculate_returns (yf_download w) ''XU100.IS'' (to_usd amount (hd u)) s e
           (annual_inflation ti) (average_interest tir)")
      obtain t6 sp500 where p: "calculate_returns (yf_download w) ''^GSPC'' (to_usd amount (hd u)) s e
           (annual_inflation ui) (average_interest uir) = (t6, sp500)"
        by (cases "calculate_returns (yf_download w) ''^GSPC'' (to_usd amount (hd u)) s e
           (annual_inflation ui) (average_interest uir)")
      note run = main_reached [OF parse u fred b p]
      show ?thesis
      proof (cases bist)
        case (Inl err)
        with run show ?thesis by simp
      next
        case bist: (Inr bt)
        show ?thesis
        proof (cases sp500)
          case (Inl err)
          with run bist show ?thesis by simp
        next
          case (Inr st)
          from b bist have "snd (calculate_returns (yf_download w) ''XU100.IS'' (to_usd amount (hd u)) s e
             (annual_inflation ti) (average_interest tir)) = Inr bt"
            by simp
          moreover from p Inr have "snd (calculate_returns (yf_download w) ''^GSPC'' (to_usd amount (hd u)) s e
             (annual_inflation ui) (average_interest uir)) = Inr st"
            by simp
          ultimately have report: "snd (main w) = None
            \<and> (if fst bt \<noteq> None \<and> fst st \<noteq> None
               then presents_results (fst (main w))
                    \<and> Print Calculation_error \<notin> set (fst (main w))
                    \<and> (\<exists>values. last (fst (main w)) = Show_chart values)
               else \<not> presents_results (fst (main w))
                    \<and> last (fst (main w)) = Print Calculation_error)"
            by (rule main_report [OF parse u fred])
          have "fst (main w) \<noteq> []" unfolding run by (simp add: bist Inr)
          with report show ?thesis
            by (cases "fst bt \<noteq> None \<and> fst st \<noteq> None") (simp_all add: result_message_def)
        qed
      qed
    qed
  qed
qed

subsection \<open>Facts about the example runs\<close>

lemma example_inflation: "annual_inflation [100, 100, 100] = 0"
  by (simp add: annual_inflation_def mean_def)

lemma example_index:
  assumes "ticker \<noteq> ''USDTRY=X''"
  shows "calculate_returns (yf_download world_ok) ticker amt 737791 738156 0 ir =
           ([Yf_download ticker],
            Inr (Some (1/2), Some ((3/2) powr (1 / years_between 737791 738156) - 1), Some (amt * (3/2))))"
  using assms by (intro calculate_returns_scenario) (simp_all add: world_ok_def)

lemma example_index_short:
  "calculate_returns (yf_download world_short) ''XU100.IS'' amt 737791 738156 0 ir =
           ([Yf_download ''XU100.IS''],
            Inr (Some (1/2), Some ((3/2) powr (1 / years_between 737791 738156) - 1), Some (amt * (3/2))))"
  by (intro calculate_returns_scenario) (simp_all add: world_short_def)

lemma example_short:
  "calculate_returns (yf_download world_short) ''^GSPC'' amt 737791 738156 infl ir =
     ([Yf_download ''^GSPC'', Print (Insufficient_data_found ''^GSPC'')], Inr (None, None, None))"
  by (simp add: calculate_returns_def world_short_def)

subsection \<open>Claims about aggregation, conversion and orchestration\<close>

text \<open>
  C5: on an inflation series of at least 2 points the aggregate is the mean, over the
  consecutive pairs, of the ratio of a value to the one before minus 1, times 12; where no
  value but the last is 0 this is the mean of the relative changes \<open>(b - a) / a\<close>. On an
  interest-rate series it is the mean level divided by 100. For the series 100, 101, 102
  it is the mean of \<open>101/100 - 1\<close> and \<open>102/101 - 1\<close>, times 12.
\<close>

theorem rate_aggregation:
  "(2 \<le> length series \<longrightarrow>
      annual_inflation series
        = (\<Sum>i = 0..<length series - 1. series ! Suc i / series ! i - 1)
            / real (length series - 1) * 12)
   \<and> (2 \<le> length series \<and> (\<forall>i<length series - 1. series ! i \<noteq> 0) \<longrightarrow>
      annual_inflation series
        = (\<Sum>i = 0..<length series - 1. (series ! Suc i - series ! i) / series ! i)
            / real (length series - 1) * 12)
   \<and> average_interest series = sum_list series / real (length series) / 100
   \<and> annual_inflation [100, 101, 102] = ((101 / 100 - 1) + (102 / 101 - 1)) / 2 * 12"
proof (intro conjI impI)
  show ratio: "annual_inflation series
        = (\<Sum>i = 0..<length series - 1. series ! Suc i / series ! i - 1)
            / real (length series - 1) * 12"
    by (simp add: annual_inflation_def mean_def sum_pct_change length_pct_change)
  assume "2 \<le> length series \<and> (\<forall>i<length series - 1. series ! i \<noteq> 0)"
  then have "(\<Sum>i = 0..<length series - 1. series ! Suc i / series ! i - 1)
      = (\<Sum>i = 0..<length series - 1. (series ! Suc i - series ! i) / series ! i)"
    by (intro sum.cong) (simp_all add: diff_divide_distrib)
  with ratio show "annual_inflation series
        = (\<Sum>i = 0..<length series - 1. (series ! Suc i - series ! i) / series ! i)
            / real (length series - 1) * 12"
    by simp
next
  show "average_interest series = sum_list series / real (length series) / 100"
    by (simp add: average_interest_def mean_def)
  show "annual_inflation [100, 101, 102] = ((101 / 100 - 1) + (102 / 101 - 1)) / 2 * 12"
    by (simp add: annual_inflation_def mean_def)
qed

theorem rate_aggregation_witness:
  "annual_inflation [100, 101, 102]
     = (\<Sum>i = 0..<length [100, 101, 102 :: real] - 1.
          ([100, 101, 102] ! Suc i - [100, 101, 102] ! i) / [100, 101, 102] ! i)
         / real (length [100, 101, 102 :: real] - 1) * 12
   \<and> annual_inflation [100, 101, 102] = 603 / 5050"
  using rate_aggregation [of "[100, 101, 102]"]
  by (simp add: less_Suc_eq)




text \<open>
  C7: when the download of the currency pair raises or yields fewer than 2 points, the run
  consists of that download and one printed message, and no economic series is fetched;
  a run that fetches an economic series has downloaded the currency pair first, with at
  least 2 points.
\<close>

theorem currency_failure_aborts_before_economic_fetches:
  assumes "amount_input w = Some amount" "start_input w = Some s" "end_input w = Some e"
  shows "(yf_download w ''USDTRY=X'' s e = None
            \<or> (\<exists>d. yf_download w ''USDTRY=X'' s e = Some d \<and> length d < 2) \<longrightarrow>
          \<not> list_ex is_fred_fetch (fst (main w))
          \<and> (\<exists>m. main w = ([Yf_download ''USDTRY=X'', Print m], None)))
       \<and> (list_ex is_fred_fetch (fst (main w)) \<longrightarrow>
            (\<exists>d. yf_download w ''USDTRY=X'' s e = Some d \<and> 2 \<le> length d)
            \<and> hd (fst (main w)) = Yf_download ''USDTRY=X'')"
proof -
  have failing: "\<not> list_ex is_fred_fetch (fst (main w))
          \<and> (\<exists>m. main w = ([Yf_download ''USDTRY=X'', Print m], None))"
    if "yf_download w ''USDTRY=X'' s e = None
            \<or> (\<exists>d. yf_download w ''USDTRY=X'' s e = Some d \<and> length d < 2)"
    using main_currency_failure [OF assms that] by auto
  have "(\<exists>d. yf_download w ''USDTRY=X'' s e = Some d \<and> 2 \<le> length d)
            \<and> hd (fst (main w)) = Yf_download ''USDTRY=X''"
    if fetched: "list_ex is_fred_fetch (fst (main w))"
  proof -
    from fetched failing
    have "\<not> (yf_download w ''USDTRY=X'' s e = None
            \<or> (\<exists>d. yf_download w ''USDTRY=X'' s e = Some d \<and> length d < 2))"
      by blast
    then obtain d where d: "yf_download w ''USDTRY=X'' s e = Some d" "2 \<le> length d"
      by (cases "yf_download w ''USDTRY=X'' s e") (auto simp: not_less)
    with main_starts_with_currency [OF assms d] show ?thesis by blast
  qed
  with failing show ?thesis by blast
qed

text \<open>The first and the second example run.\<close>

theorem currency_failure_aborts_before_economic_fetches_witness:
  "\<not> list_ex is_fred_fetch (fst (main world_fails))
   \<and> (\<exists>m. main world_fails = ([Yf_download ''USDTRY=X'', Print m], None))
   \<and> list_ex is_fred_fetch (fst (main world_ok))
   \<and> hd (fst (main world_ok)) = Yf_download ''USDTRY=X''"
proof -
  have fetched: "list_ex is_fred_fetch (fst (main world_ok))"
    by (simp add: main_def world_ok_def fred_example_def Let_def get_fred_data_def
          calculate_returns_def years_between_def present_def)
  from fetched
    currency_failure_aborts_before_economic_fetches [of world_fails 1000 737791 738156]
    currency_failure_aborts_before_economic_fetches [of world_ok 1000 737791 738156]
  show ?thesis
    by (simp add: world_fails_def world_ok_def)
qed

text \<open>
  C8, as amended: a run that presents any result (a line of the report or the chart) has
  fetched everything and both evaluations have returned three defined values. When both
  evaluations return, the run ends without an exception and either both first components
  are defined, the report and the chart are presented and no calculation error is
  printed, or nothing is presented and the last thing printed is
  \<^verbatim>\<open>An error occurred during the calculations.\<close> A run that does not end with an
  uncaught exception presents the results or ends with a printed error message.
\<close>

theorem no_partial_report:
  "(presents_results (fst (main w)) \<longrightarrow>
      snd (main w) = None
    \<and> (\<exists>amount s e u ti ui tir uir b1 b2 b3 s1 s2 s3.
           amount_input w = Some amount \<and> start_input w = Some s \<and> end_input w = Some e
         \<and> yf_download w ''USDTRY=X'' s e = Some u \<and> 2 \<le> length u
         \<and> get_data_fred w ''TURCPIALLMINMEI'' s e = Some ti
         \<and> get_data_fred w ''CPIAUCSL'' s e = Some ui
         \<and> get_data_fred w ''IR3TIB01TRM156N'' s e = Some tir
         \<and> get_data_fred w ''FEDFUNDS'' s e = Some uir
         \<and> snd (calculate_returns (yf_download w) ''XU100.IS'' (to_usd amount (hd u)) s e
                  (annual_inflation ti) (average_interest tir)) = Inr (Some b1, Some b2, Some b3)
         \<and> snd (calculate_returns (yf_download w) ''^GSPC'' (to_usd amount (hd u)) s e
                  (annual_inflation ui) (average_interest uir)) = Inr (Some s1, Some s2, Some s3)))
   \<and> (amount_input w = Some amount \<and> start_input w = Some s \<and> end_input w = Some e
      \<and> yf_download w ''USDTRY=X'' s e = Some u \<and> 2 \<le> length u
      \<and> get_data_fred w ''TURCPIALLMINMEI'' s e = Some ti
      \<and> get_data_fred w ''CPIAUCSL'' s e = Some ui
      \<and> get_data_fred w ''IR3TIB01TRM156N'' s e = Some tir
      \<and> get_data_fred w ''FEDFUNDS'' s e = Some uir
      \<and> snd (calculate_returns (yf_download w) ''XU100.IS'' (to_usd amount (hd u)) s e
               (annual_inflation ti) (average_interest tir)) = Inr bist
      \<and> snd (calculate_returns (yf_download w) ''^GSPC'' (to_usd amount (hd u)) s e
               (annual_inflation ui) (average_interest uir)) = Inr sp500 \<longrightarrow>
        snd (main w) = None
      \<and> (if fst bist \<noteq> None \<and> fst sp500 \<noteq> None
         then presents_results (fst (main w))
              \<and> Print Calculation_error \<notin> set (fst (main w))
              \<and> (\<exists>values. last (fst (main w)) = Show_chart values)
         else \<not> presents_results (fst (main w))
              \<and> last (fst (main w)) = Print Calculation_error))
   \<and> (presents_results (fst (main w))
      \<or> (\<exists>err. snd (main w) = Some err)
      \<or> (\<exists>m. fst (main w) \<noteq> [] \<and> last (fst (main w)) = Print m \<and> \<not> result_message m))"
proof (intro conjI impI)
  assume shown: "presents_results (fst (main w))"
  from results_need_all_fetches [OF this] obtain amount s e u ti ui tir uir where
    reach: "amount_input w = Some amount" "start_input w = Some s" "end_input w = Some e"
      "yf_download w ''USDTRY=X'' s e = Some u" "2 \<le> length u"
      "get_data_fred w ''TURCPIALLMINMEI'' s e = Some ti" "get_data_fred w ''CPIAUCSL'' s e = Some ui"
      "get_data_fred w ''IR3TIB01TRM156N'' s e = Some tir" "get_data_fred w ''FEDFUNDS'' s e = Some uir"
    by blast
  from shown main_results_iff [OF reach] obtain b1 b2 b3 s1 s2 s3 where
    both: "snd (calculate_returns (yf_download w) ''XU100.IS'' (to_usd amount (hd u)) s e
                  (annual_inflation ti) (average_interest tir)) = Inr (Some b1, Some b2, Some b3)"
      "snd (calculate_returns (yf_download w) ''^GSPC'' (to_usd amount (hd u)) s e
                  (annual_inflation ui) (average_interest uir)) = Inr (Some s1, Some s2, Some s3)"
    by blast
  from reach both show "\<exists>amount s e u ti ui tir uir b1 b2 b3 s1 s2 s3.
           amount_input w = Some amount \<and> start_input w = Some s \<and> end_input w = Some e
         \<and> yf_download w ''USDTRY=X'' s e = Some u \<and> 2 \<le> length u
         \<and> get_data_fred w ''TURCPIALLMINMEI'' s e = Some ti
         \<and> get_data_fred w ''CPIAUCSL'' s e = Some ui
         \<and> get_data_fred w ''IR3TIB01TRM156N'' s e = Some tir
         \<and> get_data_fred w ''FEDFUNDS'' s e = Some uir
         \<and> snd (calculate_returns (yf_download w) ''XU100.IS'' (to_usd amount (hd u)) s e
                  (annual_inflation ti) (average_interest tir)) = Inr (Some b1, Some b2, Some b3)
         \<and> snd (calculate_returns (yf_download w) ''^GSPC'' (to_usd amount (hd u)) s e
                  (annual_inflation ui) (average_interest uir)) = Inr (Some s1, Some s2, Some s3)"
    by blast
  from main_report [OF reach both] show "snd (main w) = None" by simp
next
  assume a: "amount_input w = Some amount \<and> start_input w = Some s \<and> end_input w = Some e
      \<and> yf_download w ''USDTRY=X'' s e = Some u \<and> 2 \<le> length u
      \<and> get_data_fred w ''TURCPIALLMINMEI'' s e = Some ti
      \<and> get_data_fred w ''CPIAUCSL'' s e = Some ui
      \<and> get_data_fred w ''IR3TIB01TRM156N'' s e = Some tir
      \<and> get_data_fred w ''FEDFUNDS'' s e = Some uir
      \<and> snd (calculate_returns (yf_download w) ''XU100.IS'' (to_usd amount (hd u)) s e
               (annual_inflation ti) (average_interest tir)) = Inr bist
      \<and> snd (calculate_returns (yf_download w) ''^GSPC'' (to_usd amount (hd u)) s e
               (annual_inflation ui) (average_interest uir)) = Inr sp500"
  then have reach: "amount_input w = Some amount" "start_input w = Some s" "end_input w = Some e"
      "yf_download w ''USDTRY=X'' s e = Some u" "2 \<le> length u"
      "get_data_fred w ''TURCPIALLMINMEI'' s e = Some ti" "get_data_fred w ''CPIAUCSL'' s e = Some ui"
      "get_data_fred w ''IR3TIB01TRM156N'' s e = Some tir" "get_data_fred w ''FEDFUNDS'' s e = Some uir"
      "snd (calculate_returns (yf_download w) ''XU100.IS'' (to_usd amount (hd u)) s e
               (annual_inflation ti) (average_interest tir)) = Inr bist"
      "snd (calculate_returns (yf_download w) ''^GSPC'' (to_usd amount (hd u)) s e
               (annual_inflation ui) (average_interest uir)) = Inr sp500"
    by simp_all
  note report = main_report [OF reach]
  from report show "snd (main w) = None" by (rule conjunct1)
  from report show "if fst bist \<noteq> None \<and> fst sp500 \<noteq> None
         then presents_results (fst (main w))
              \<and> Print Calculation_error \<notin> set (fst (main w))
              \<and> (\<exists>values. last (fst (main w)) = Show_chart values)
         else \<not> presents_results (fst (main w))
              \<and> last (fst (main w)) = Print Calculation_error"
    by (rule conjunct2)
next
  show "presents_results (fst (main w))
      \<or> (\<exists>err. snd (main w) = Some err)
      \<or> (\<exists>m. fst (main w) \<noteq> [] \<and> last (fst (main w)) = Print m \<and> \<not> result_message m)"
    by (rule main_ends)
qed

text \<open>The second and the third example run.\<close>

theorem no_partial_report_witness:
  "presents_results (fst (main world_ok)) \<and> snd (main world_ok) = None
   \<and> Print Calculation_error \<notin> set (fst (main world_ok))
   \<and> \<not> presents_results (fst (main world_short))
   \<and> last (fst (main world_short)) = Print Calculation_error
   \<and> snd (main world_short) = None"
  using no_partial_report [where w = world_ok and amount = 1000 and s = 737791 and e = 738156
      and u = "[8, 13]" and ti = "[100, 100, 100]" and ui = "[100, 100, 100]"
      and tir = "[5, 5]" and uir = "[5, 5]"
      and bist = "(Some (1/2), Some ((3/2) powr (1 / years_between 737791 738156) - 1),
                   Some (to_usd 1000 8 * (3/2)))"
      and ?sp500.0 = "(Some (1/2), Some ((3/2) powr (1 / years_between 737791 738156) - 1),
                   Some (to_usd 1000 8 * (3/2)))"]
    no_partial_report [where w = world_short and amount = 1000 and s = 737791 and e = 738156
      and u = "[8, 13]" and ti = "[100, 100, 100]" and ui = "[100, 100, 100]"
      and tir = "[5, 5]" and uir = "[5, 5]"
      and bist = "(Some (1/2), Some ((3/2) powr (1 / years_between 737791 738156) - 1),
                   Some (to_usd 1000 8 * (3/2)))"
      and ?sp500.0 = "(None, None, None)"]
  by (simp add: example_inflation example_index example_index_short example_short)
     (simp add: world_ok_def world_short_def fred_example_def)

text \<open>
  C8 as stated fails in the fourth example run: the evaluation of the BIST 100 raises
  \<^verbatim>\<open>ZeroDivisionError\<close>, nothing is presented and nothing is printed.
\<close>

theorem same_day_run_counterexample:
  "main world_same_day =
     ([Yf_download ''USDTRY=X'', Fred_fetch ''TURCPIALLMINMEI'', Fred_fetch ''CPIAUCSL'',
       Fred_fetch ''IR3TIB01TRM156N'', Fred_fetch ''FEDFUNDS'', Yf_download ''XU100.IS''],
      Some ZeroDivisionError)"
  by (simp add: main_def world_same_day_def fred_example_def Let_def get_fred_data_def
        calculate_returns_def years_between_def)

end
